theory Spec2Isabelle
  imports Main "HOL-Library.Char_ord" "HOL-Library.List_Lexorder"
begin

section \<open>Python values used by ris\_from\_inspirehep.py\<close>

text \<open>
  A Python \<open>str\<close> is modelled as a \<open>string\<close> whose characters stand for code points
  below 256 (so the letter a-umlaut of the alias table is the single character
  \<open>CHR 0xE4\<close>).  The order on \<open>char\<close> is the order of the codes and the order on
  lists is the lexicographic one, which is how Python compares strings.

  Every exception the script can raise is a value of \<open>error\<close>; a function that can
  raise returns \<open>error + 'a\<close> with \<open>Inl\<close> for the exception.
\<close>

datatype error =
    KeyError string
  | IndexError
  | NameError string
  | AssertionError
  | RuntimeError string
  | ZeroDivisionError
  | OverflowError

text \<open>\<open>d[k]\<close> on a dictionary whose key \<open>k\<close> may be missing.\<close>

definition getitem :: "string \<Rightarrow> 'a option \<Rightarrow> error + 'a" where
  "getitem k v = (case v of None \<Rightarrow> Inl (KeyError k) | Some x \<Rightarrow> Inr x)"

text \<open>\<open>xs[0]\<close> on a list.\<close>

definition first :: "'a list \<Rightarrow> error + 'a" where
  "first xs = (case xs of [] \<Rightarrow> Inl IndexError | x # _ \<Rightarrow> Inr x)"

text \<open>Sequencing of two computations that may raise.\<close>

definition ebind :: "error + 'a \<Rightarrow> ('a \<Rightarrow> error + 'b) \<Rightarrow> error + 'b" where
  "ebind m f = (case m of Inl e \<Rightarrow> Inl e | Inr x \<Rightarrow> f x)"

subsection \<open>String methods\<close>

text \<open>\<open>sep.join(xs)\<close>\<close>

fun str_join :: "string \<Rightarrow> string list \<Rightarrow> string" where
  "str_join sep [] = []"
| "str_join sep [x] = x"
| "str_join sep (x # y # ys) = x @ sep @ str_join sep (y # ys)"

text \<open>\<open>s.startswith(p)\<close>\<close>

definition startswith :: "string \<Rightarrow> string \<Rightarrow> bool" where
  "startswith s p = (take (length p) s = p)"

text \<open>\<open>sub in s\<close> for strings: \<open>sub\<close> occurs somewhere in \<open>s\<close>.\<close>

fun contains :: "string \<Rightarrow> string \<Rightarrow> bool" where
  "contains sub [] = (sub = [])"
| "contains sub (c # cs) = (startswith (c # cs) sub \<or> contains sub cs)"

text \<open>
  \<open>c.isspace()\<close> for the code points below 256: tab, line feed, vertical tab, form
  feed, carriage return, the four separators 0x1C..0x1F, space, NEL and the no-break
  space.
\<close>

definition isspace :: "char \<Rightarrow> bool" where
  "isspace c = (of_char c \<in> {9, 10, 11, 12, 13, 28, 29, 30, 31, 32, 133, 160 :: nat})"

text \<open>\<open>s.strip()\<close>\<close>

definition strip :: "string \<Rightarrow> string" where
  "strip s = rev (dropWhile isspace (rev (dropWhile isspace s)))"

text \<open>
  \<open>s.replace(old, new)\<close>: the occurrences of \<open>old\<close> are found from the left and do
  not overlap.  For an empty \<open>old\<close> Python puts \<open>new\<close> in front of every character
  and at the end.
\<close>

function replace :: "string \<Rightarrow> string \<Rightarrow> string \<Rightarrow> string" where
  "replace old new s =
     (if old = [] then new @ concat (map (\<lambda>c. c # new) s)
      else if s = [] then []
      else if startswith s old then new @ replace old new (drop (length old) s)
      else hd s # replace old new (tl s))"
  by pat_completeness auto
termination
  by (relation "measure (\<lambda>(old, new, s). length s)") auto

declare replace.simps [simp del]

text \<open>
  \<open>s.split(sep)\<close> for a non-empty separator \<open>sep\<close> (the script only splits at
  \<open>' - '\<close>): \<open>split_acc\<close> scans \<open>s\<close> from the left, \<open>cur\<close> holding the reversed
  piece read since the last separator.
\<close>

function split_acc :: "string \<Rightarrow> string \<Rightarrow> string \<Rightarrow> string list" where
  "split_acc sep cur s =
     (if s = [] then [rev cur]
      else if sep \<noteq> [] \<and> startswith s sep then rev cur # split_acc sep [] (drop (length sep) s)
      else split_acc sep (hd s # cur) (tl s))"
  by pat_completeness auto
termination
  by (relation "measure (\<lambda>(sep, cur, s). length s)") auto

declare split_acc.simps [simp del]

definition split :: "string \<Rightarrow> string \<Rightarrow> string list" where
  "split s sep = split_acc sep [] s"

text \<open>
  \<open>s.upper()\<close> on the ASCII letters; the only strings the script upper-cases are its
  own two-letter field codes.
\<close>

definition upper_char :: "char \<Rightarrow> char" where
  "upper_char c =
     (case map_of (zip ''abcdefghijklmnopqrstuvwxyz'' ''ABCDEFGHIJKLMNOPQRSTUVWXYZ'') c of
        None \<Rightarrow> c
      | Some u \<Rightarrow> u)"

definition upper :: "string \<Rightarrow> string" where
  "upper s = map upper_char s"

text \<open>\<open>str(n)\<close> for an integer: decimal digits, a minus sign in front of a negative one.\<close>

function str_nat :: "nat \<Rightarrow> string" where
  "str_nat n =
     (if n < 10 then [''0123456789'' ! n]
      else str_nat (n div 10) @ [''0123456789'' ! (n mod 10)])"
  by pat_completeness auto
termination
  by (relation "measure id") auto

declare str_nat.simps [simp del]

definition str_int :: "int \<Rightarrow> string" where
  "str_int i = (if i < 0 then ''-'' @ str_nat (nat (- i)) else str_nat (nat i))"

section \<open>The lookup tables\<close>

definition AFFIL :: string where
  "AFFIL = ''NICPB, Tallinn''"

definition ALIASES :: "string \<rightharpoonup> string" where
  "ALIASES = map_of
     [(''Carvalho Antunes De Oliveira, Alexandra'', ''Oliveira, Alexandra''),
      (''Ehataht, Karl'', ''Ehat'' @ [CHR 0xE4] @ ''ht, Karl'')]"

definition DOCTYPES :: "string \<rightharpoonup> string" where
  "DOCTYPES = map_of [(''article'', ''JOUR''), (''conference paper'', ''CONF'')]"

definition get_doctype :: "string \<Rightarrow> error + string" where
  "get_doctype doctype =
     (case DOCTYPES doctype of
        None \<Rightarrow> Inl (RuntimeError (''Unexpected document type: '' @ doctype))
      | Some code \<Rightarrow> Inr code)"

section \<open>join\_with\_and\<close>

definition join_with_and :: "string list \<Rightarrow> error + string" where
  "join_with_and arr =
     (if arr = [] then Inl AssertionError
      else if length arr = 1 then Inr (arr ! 0)
      else if length arr = 2 then Inr (arr ! 0 @ '' and '' @ arr ! 1)
      else Inr (str_join '', '' (butlast arr) @ '' and '' @ last arr))"

section \<open>The records of the literature API\<close>

text \<open>
  A JSON object is a record whose fields are the keys the script reads; a field is
  \<open>None\<close> when the key is missing, so that \<open>'k' in d\<close> is \<open>k d \<noteq> None\<close> and
  \<open>d['k']\<close> is \<open>getitem ''k'' (k d)\<close>.  The objects \<open>{'value': ...}\<close> of the lists
  \<open>dois\<close>, \<open>affiliations\<close>, \<open>collaborations\<close> and \<open>urls\<close> share the record
  \<open>valued\<close> with the field \<open>val\<close>.
\<close>

record valued =
  val :: "string option"

record author_item =
  affiliations :: "valued list option"
  full_name :: "string option"

record pubinfo =
  year :: "int option"
  journal_title :: "string option"
  journal_volume :: "string option"
  page_start :: "string option"
  page_end :: "string option"

record title_item =
  title :: "string option"

record document =
  url :: "string option"

record json_metadata =
  dois :: "valued list option"
  publication_info :: "pubinfo list option"
  document_type :: "string list option"
  titles :: "title_item list option"
  documents :: "document list option"
  urls :: "valued list option"
  authors :: "author_item list option"
  collaborations :: "valued list option"

record json_entry =
  metadata :: "json_metadata option"
  entry_id :: "string option"

section \<open>select\<close>

text \<open>\<open>any(affiliation['value'] == AFFIL for affiliation in affs)\<close>, left to right.\<close>

fun any_affil :: "valued list \<Rightarrow> error + bool" where
  "any_affil [] = Inr False"
| "any_affil (a # as) =
     (case val a of
        None \<Rightarrow> Inl (KeyError ''value'')
      | Some v \<Rightarrow> if v = AFFIL then Inr True else any_affil as)"

text \<open>The first loop of \<open>select\<close>; \<open>sel\<close> is \<open>selected_authors\<close> so far.\<close>

fun collect_authors :: "author_item list \<Rightarrow> string list \<Rightarrow> error + string list" where
  "collect_authors [] sel = Inr sel"
| "collect_authors (a # as) sel =
     (case affiliations a of
        None \<Rightarrow> collect_authors as sel
      | Some affs \<Rightarrow>
          (case any_affil affs of
             Inl e \<Rightarrow> Inl e
           | Inr False \<Rightarrow> collect_authors as sel
           | Inr True \<Rightarrow>
               (case full_name a of
                  None \<Rightarrow> Inl (KeyError ''full_name'')
                | Some n \<Rightarrow> collect_authors as (sel @ [n]))))"

text \<open>\<open>ALIASES[n] if n in ALIASES else n\<close>\<close>

definition resolve_alias :: "string \<Rightarrow> string" where
  "resolve_alias n = (case ALIASES n of None \<Rightarrow> n | Some a \<Rightarrow> a)"

definition aliased_sorted :: "string list \<Rightarrow> string list" where
  "aliased_sorted sel = sort (map resolve_alias sel)"

text \<open>
  In the branch taken when neither the name nor its alias was selected and
  \<open>keep_affiliation\<close> is set, the script evaluates \<open>selected_authors.append(author)\<close>.
  No variable \<open>author\<close> exists in \<open>select\<close> nor at module level, so the statement raises
  NameError.
\<close>

definition select :: "author_item list \<Rightarrow> string \<Rightarrow> bool \<Rightarrow> error + string list" where
  "select authors_all name keep_affiliation =
     (case collect_authors authors_all [] of
        Inl e \<Rightarrow> Inl e
      | Inr selected_authors \<Rightarrow>
          if name \<notin> set selected_authors then
            if (case ALIASES name of None \<Rightarrow> False | Some a \<Rightarrow> a \<in> set selected_authors)
            then Inr (aliased_sorted selected_authors)
            else if keep_affiliation then Inl (NameError ''author'')
            else Inr (aliased_sorted [])
          else Inr (aliased_sorted selected_authors))"

section \<open>get\_ris\<close>

text \<open>
  A value of the ordered dictionary \<open>ris\<close>: a string, the integer year, or the list of
  authors.  The dictionary is an association list in insertion order; assigning to a
  key that is there keeps its place, assigning to a new key appends it.
\<close>

datatype ris_val = Str string | Num int | Lst "string list"

fun setitem :: "(string \<times> ris_val) list \<Rightarrow> string \<Rightarrow> ris_val \<Rightarrow> (string \<times> ris_val) list" where
  "setitem [] k v = [(k, v)]"
| "setitem ((k', v') # kvs) k v = (if k' = k then (k, v) # kvs else (k', v') # setitem kvs k v)"

text \<open>The lines one item of \<open>ris\<close> is written as (the body of the last loop).\<close>

fun item_lines :: "string \<times> ris_val \<Rightarrow> string list" where
  "item_lines (ris_key, Lst ris_val) = map (\<lambda>ris_elem. upper ris_key @ ''  - '' @ ris_elem) ris_val"
| "item_lines (ris_key, Str ris_val) = [upper ris_key @ ''  - '' @ ris_val]"
| "item_lines (ris_key, Num ris_val) = [upper ris_key @ ''  - '' @ str_int ris_val]"

definition ris_lines :: "(string \<times> ris_val) list \<Rightarrow> string list" where
  "ris_lines ris = concat (map item_lines ris)"

text \<open>
  The first publication\_info entry that has a year, with that year (\<open>pub_idx\<close> and the
  lookups after it).
\<close>

fun find_year :: "pubinfo list \<Rightarrow> (pubinfo \<times> int) option" where
  "find_year [] = None"
| "find_year (p # ps) = (case year p of Some y \<Rightarrow> Some (p, y) | None \<Rightarrow> find_year ps)"

text \<open>\<open>[ collab['value'] for collab in collaborations ]\<close>\<close>

fun collab_values :: "valued list \<Rightarrow> error + string list" where
  "collab_values [] = Inr []"
| "collab_values (c # cs) =
     ebind (getitem ''value'' (val c)) (\<lambda>v. ebind (collab_values cs) (\<lambda>vs. Inr (v # vs)))"

text \<open>
  Lines 161 to 170: the author list after the collaboration rule; \<open>selected_authors\<close> is
  not empty here.
\<close>

definition add_collaborations ::
    "valued list option \<Rightarrow> nat \<Rightarrow> string list \<Rightarrow> error + string list" where
  "add_collaborations collaborations_field nof_authors_total selected_authors =
     (case collaborations_field of
        None \<Rightarrow> Inr selected_authors
      | Some cs \<Rightarrow>
          ebind (collab_values cs) (\<lambda>vs.
          let collabs = sort vs in
          ebind (join_with_and collabs) (\<lambda>joined.
          let collab_str = joined @ '' Collaboration'' @ (if length collabs > 1 then ''s'' else [])
          in
          if nof_authors_total < 10
          then Inr (butlast selected_authors @
                    [last selected_authors @ '' (for the '' @ collab_str @ '')''])
          else Inr (selected_authors @ [''et al. ('' @ collab_str @ '')'']))))"

text \<open>
  Lines 150 to 153: the value of the optional \<open>av\<close> item, the URL of the first document
  or else the first of \<open>urls\<close>, and its insertion.
\<close>

definition av_value :: "json_metadata \<Rightarrow> error + string option" where
  "av_value json_md =
     ebind (case documents json_md of
              None \<Rightarrow> Inr None
            | Some ds \<Rightarrow> ebind (first ds) (\<lambda>d. Inr (url d))) (\<lambda>doc_url.
     case doc_url of
       Some u \<Rightarrow> Inr (Some u)
     | None \<Rightarrow>
         (case urls json_md of
            None \<Rightarrow> Inr None
          | Some us \<Rightarrow> ebind (first us) (\<lambda>u. Inr (val u))))"

definition add_av :: "string option \<Rightarrow> (string \<times> ris_val) list \<Rightarrow> (string \<times> ris_val) list" where
  "add_av av ris = (case av of None \<Rightarrow> ris | Some a \<Rightarrow> setitem ris ''av'' (Str a))"

text \<open>The ten items \<open>ris\<close> is created with (lines 134 to 145).\<close>

definition base_ris ::
    "string \<Rightarrow> int \<Rightarrow> string \<Rightarrow> string \<Rightarrow> string \<Rightarrow> string \<Rightarrow> string \<Rightarrow> (string \<times> ris_val) list" where
  "base_ris ty y jo vl t1 doi record_url =
     [(''ty'', Str ty), (''py'', Num y), (''jo'', Str jo), (''vl'', Str vl),
      (''t1'', Str t1), (''do'', Str (''https://dx.doi.org/'' @ doi)),
      (''db'', Str ''WoS''), (''dp'', Str ''WoS''), (''la'', Str ''English''),
      (''ur'', Str record_url)]"

text \<open>Lines 146 to 149: the optional page items.\<close>

definition add_pages :: "pubinfo \<Rightarrow> (string \<times> ris_val) list \<Rightarrow> (string \<times> ris_val) list" where
  "add_pages pubinfo ris =
     (let ris = (case page_start pubinfo of None \<Rightarrow> ris | Some sp \<Rightarrow> setitem ris ''sp'' (Str sp))
      in case page_end pubinfo of None \<Rightarrow> ris | Some ep \<Rightarrow> setitem ris ''ep'' (Str ep))"

text \<open>
  Lines 134 to 153, for the entry \<open>pubinfo\<close> that carries the year \<open>y\<close>: the dictionary
  \<open>ris\<close> before the authors are added.
\<close>

definition build_fields ::
    "json_metadata \<Rightarrow> string \<Rightarrow> string \<Rightarrow> pubinfo \<Rightarrow> int \<Rightarrow> error + (string \<times> ris_val) list" where
  "build_fields json_md record_url doi pubinfo y =
     ebind (getitem ''document_type'' (document_type json_md)) (\<lambda>dts.
     ebind (first dts) (\<lambda>dt.
     ebind (get_doctype dt) (\<lambda>ty.
     ebind (getitem ''journal_title'' (journal_title pubinfo)) (\<lambda>jo.
     ebind (getitem ''journal_volume'' (journal_volume pubinfo)) (\<lambda>vl.
     ebind (getitem ''titles'' (titles json_md)) (\<lambda>ts.
     ebind (first ts) (\<lambda>t.
     ebind (getitem ''title'' (title t)) (\<lambda>t1.
     ebind (av_value json_md) (\<lambda>av.
     Inr (add_av av (add_pages pubinfo (base_ris ty y jo vl t1 doi record_url))))))))))))"

text \<open>Lines 134 to 180.\<close>

definition build_ris ::
    "json_metadata \<Rightarrow> string \<Rightarrow> string \<Rightarrow> pubinfo \<Rightarrow> int \<Rightarrow> string \<Rightarrow> bool \<Rightarrow> error + string list" where
  "build_ris json_md record_url doi pubinfo y name keep_affiliation =
     ebind (build_fields json_md record_url doi pubinfo y) (\<lambda>ris.
     ebind (getitem ''authors'' (authors json_md)) (\<lambda>authors_all.
     ebind (select authors_all name keep_affiliation) (\<lambda>selected_authors.
     if selected_authors = [] then Inr []
     else
       ebind (add_collaborations (collaborations json_md) (length authors_all) selected_authors)
         (\<lambda>selected_authors. Inr (ris_lines (setitem ris ''au'' (Lst selected_authors)))))))"

text \<open>Line 115: the URL of the record with the identifier \<open>ident\<close>.\<close>

definition record_url_of :: "string \<Rightarrow> string" where
  "record_url_of ident = ''https://inspirehep.net/record/'' @ ident"

text \<open>
  \<open>get_ris\<close> returns what it prints to standard output with \<open>print\<close> (the metadata it
  dumps before raising for a missing year) together with its result.
\<close>

definition get_ris ::
    "json_entry \<Rightarrow> string \<Rightarrow> bool \<Rightarrow> string list \<Rightarrow> json_metadata list \<times> (error + string list)" where
  "get_ris entry name keep_affiliation dois_to_exclude =
     (case metadata entry of
        None \<Rightarrow> ([], Inl (KeyError ''metadata''))
      | Some json_md \<Rightarrow>
     (case entry_id entry of
        None \<Rightarrow> ([], Inl (KeyError ''id''))
      | Some ident \<Rightarrow>
     (case dois json_md of
        None \<Rightarrow> ([], Inr [])
      | Some ds \<Rightarrow>
     (case ebind (first ds) (\<lambda>d. getitem ''value'' (val d)) of
        Inl e \<Rightarrow> ([], Inl e)
      | Inr doi \<Rightarrow>
     if doi \<in> set dois_to_exclude then ([], Inr [])
     else
     (case publication_info json_md of
        None \<Rightarrow> ([], Inl (KeyError ''publication_info''))
      | Some pubinfos \<Rightarrow>
     (case find_year pubinfos of
        None \<Rightarrow> ([json_md], Inl (RuntimeError ''No publication year found in the above entry''))
      | Some (pubinfo, y) \<Rightarrow>
          ([], build_ris json_md (record_url_of ident) doi pubinfo y name keep_affiliation)))))))"

section \<open>exclude\_dois\_from\<close>

text \<open>
  Reading the file: \<open>open\<close> in text mode turns every \<open>'\r\n'\<close> and every other
  \<open>'\r'\<close> of the decoded text into \<open>'\n'\<close>, and \<open>for line in fptr\<close> yields the
  pieces that end after each \<open>'\n'\<close>, with the line break kept, and a last piece
  without one if the text does not end in a line break.
\<close>

fun translate_newlines :: "string \<Rightarrow> string" where
  "translate_newlines [] = []"
| "translate_newlines [c] = [if c = CHR 0x0D then CHR 0x0A else c]"
| "translate_newlines (c # c' # cs) =
     (if c = CHR 0x0D then
        (if c' = CHR 0x0A then CHR 0x0A # translate_newlines cs
         else CHR 0x0A # translate_newlines (c' # cs))
      else c # translate_newlines (c' # cs))"

fun lines_acc :: "string \<Rightarrow> string \<Rightarrow> string list" where
  "lines_acc cur [] = (if cur = [] then [] else [rev cur])"
| "lines_acc cur (c # cs) =
     (if c = CHR 0x0A then rev (c # cur) # lines_acc [] cs else lines_acc (c # cur) cs)"

definition file_lines :: "string \<Rightarrow> string list" where
  "file_lines content = lines_acc [] (translate_newlines content)"

text \<open>The loop over the lines of the file.\<close>

fun exclude_lines :: "string \<Rightarrow> string list \<Rightarrow> string list \<Rightarrow> error + string list" where
  "exclude_lines fn [] to_exclude = Inr to_exclude"
| "exclude_lines fn (line # lines) to_exclude =
     (let line_stripped = strip line in
      if startswith line_stripped ''DO '' then
        (let line_split = split line_stripped '' - '' in
         if length line_split \<noteq> 2 then Inl (RuntimeError (''Not a RIS file: '' @ fn))
         else
           exclude_lines fn lines
             (to_exclude @
              [replace ''http://dx.doi.org/'' [] (replace ''https'' ''http'' (strip (line_split ! 1)))]))
      else exclude_lines fn lines to_exclude)"

text \<open>
  The file system is a map from a path to the text of the file there, decoded as the
  script asks for.
\<close>

definition exclude_dois_from :: "(string \<rightharpoonup> string) \<Rightarrow> string \<Rightarrow> error + string list" where
  "exclude_dois_from files fn =
     (if fn = [] then Inr []
      else case files fn of
             None \<Rightarrow> Inl (RuntimeError (''No such file: '' @ fn))
           | Some content \<Rightarrow> exclude_lines fn (file_lines content) [])"

section \<open>The fetch loop of the main program\<close>

text \<open>
  A response of the server: its status code and its JSON payload
  \<open>{hits: {total, hits}, links: {next}}\<close>.
\<close>

record json_hits =
  total :: "int option"
  hits_list :: "json_entry list option"

record json_links =
  next_link :: "string option"

record json_payload =
  hits :: "json_hits option"
  links :: "json_links option"

record response =
  status_code :: int
  json :: json_payload

text \<open>
  The variables the loop changes, and what the run did to the outside: \<open>requests\<close> is
  the list of the URLs passed to \<open>requests.get\<close>, \<open>sleeps\<close> the arguments of
  \<open>time.sleep\<close> (seconds), \<open>stdout\<close> what \<open>get_ris\<close> printed.  The page count
  \<open>nof_pages\<close> and \<open>order_str\<close> only feed the debug log, which is not modelled; of the
  page count only the division by \<open>query_size\<close>, which can raise, is kept.
\<close>

record fetch_state =
  cur_url :: string
  nof_hits :: int
  page_nr :: nat
  ris_data :: "string list"
  requests :: "string list"
  sleeps :: "nat list"
  stdout :: "json_metadata list"

definition init_state :: "string \<Rightarrow> fetch_state" where
  "init_state url0 =
     \<lparr>cur_url = url0, nof_hits = - 1, page_nr = 1, ris_data = [], requests = [], sleeps = [],
      stdout = []\<rparr>"

text \<open>Lines 290 to 293: the loop over the entries of one page.\<close>

fun process_entries ::
    "string \<Rightarrow> bool \<Rightarrow> string list \<Rightarrow> json_entry list \<Rightarrow> fetch_state \<Rightarrow> fetch_state \<times> error option" where
  "process_entries name keep_affiliation dois_to_exclude [] st = (st, None)"
| "process_entries name keep_affiliation dois_to_exclude (entry # entries) st =
     (case get_ris entry name keep_affiliation dois_to_exclude of
        (out, res) \<Rightarrow>
          (case res of
             Inl e \<Rightarrow> (st\<lparr>stdout := stdout st @ out\<rparr>, Some e)
           | Inr lines \<Rightarrow>
               process_entries name keep_affiliation dois_to_exclude entries
                 (if lines \<noteq> []
                  then st\<lparr>stdout := stdout st @ out,
                          ris_data := ris_data st @ [str_join [CHR 0x0A] lines]\<rparr>
                  else st\<lparr>stdout := stdout st @ out\<rparr>)))"

text \<open>
  Line 283 divides two integers with \<open>/\<close>.  The quotient is the double nearest to the
  exact one; Python raises ZeroDivisionError for a zero divisor and OverflowError when
  that nearest double would be \<open>2 ^ 1024\<close> or more in absolute value, which is when
  the exact quotient is at least \<open>2 ^ 1024 - 2 ^ 970\<close> (the midpoint between the
  largest double and \<open>2 ^ 1024\<close> rounds up).  \<open>true_div_overflows\<close> is that test for
  a non-zero divisor.
\<close>

definition true_div_overflows :: "int \<Rightarrow> int \<Rightarrow> bool" where
  "true_div_overflows a b = ((2 ^ 1024 - 2 ^ 970) * \<bar>b\<bar> \<le> \<bar>a\<bar>)"

text \<open>Lines 279 to 296: what the loop does with a response of status 200.\<close>

definition handle_page ::
    "string \<Rightarrow> bool \<Rightarrow> string list \<Rightarrow> int \<Rightarrow> response \<Rightarrow> fetch_state \<Rightarrow> fetch_state \<times> error option" where
  "handle_page name keep_affiliation dois_to_exclude query_size resp st =
     (case hits (json resp) of
        None \<Rightarrow> (st, Some (KeyError ''hits''))
      | Some json_hits \<Rightarrow>
     (case (if nof_hits st < 0
            then (case total json_hits of
                    None \<Rightarrow> (st, Some (KeyError ''total''))
                  | Some t \<Rightarrow>
                      if query_size = 0 then (st\<lparr>nof_hits := t\<rparr>, Some ZeroDivisionError)
                      else if true_div_overflows t query_size
                      then (st\<lparr>nof_hits := t\<rparr>, Some OverflowError)
                      else (st\<lparr>nof_hits := t\<rparr>, None))
            else (st, None)) of
        (st, Some e) \<Rightarrow> (st, Some e)
      | (st, None) \<Rightarrow>
     (case hits_list json_hits of
        None \<Rightarrow> (st, Some (KeyError ''hits''))
      | Some json_hits_data \<Rightarrow>
     (case process_entries name keep_affiliation dois_to_exclude json_hits_data
             (st\<lparr>page_nr := page_nr st + 1\<rparr>) of
        (st, Some e) \<Rightarrow> (st, Some e)
      | (st, None) \<Rightarrow>
     (case links (json resp) of
        None \<Rightarrow> (st, Some (KeyError ''links''))
      | Some json_links \<Rightarrow>
          (st\<lparr>cur_url := (case next_link json_links of Some u \<Rightarrow> u | None \<Rightarrow> [])\<rparr>, None))))))"

text \<open>
  The \<open>while url:\<close> loop.  The server is a function from the number of requests made
  before and the URL asked for to its response.  The loop has no bound: where it does
  not end, \<open>fetch_loop\<close> is \<open>None\<close>.  Where it ends, the result is the last state and
  the exception that ended the run, if any.
\<close>

partial_function (option) fetch_loop ::
    "(nat \<Rightarrow> string \<Rightarrow> response) \<Rightarrow> string \<Rightarrow> bool \<Rightarrow> string list \<Rightarrow> int \<Rightarrow> fetch_state
     \<Rightarrow> (fetch_state \<times> error option) option" where
  "fetch_loop server name keep_affiliation dois_to_exclude query_size st =
     (if cur_url st = [] then Some (st, None)
      else
        let resp = server (length (requests st)) (cur_url st);
            st = st\<lparr>requests := requests st @ [cur_url st]\<rparr>
        in
        if status_code resp = 429
        then fetch_loop server name keep_affiliation dois_to_exclude query_size
               (st\<lparr>sleeps := sleeps st @ [6]\<rparr>)
        else if status_code resp \<noteq> 200
        then Some (st, Some (RuntimeError
               (''The following URL gave status code '' @ str_int (status_code resp) @ '': '' @
                cur_url st)))
        else
          (case handle_page name keep_affiliation dois_to_exclude query_size resp st of
             (st, Some e) \<Rightarrow> Some (st, Some e)
           | (st, None) \<Rightarrow>
               fetch_loop server name keep_affiliation dois_to_exclude query_size st))"

section \<open>The notions of the specification\<close>

text \<open>
  The specification's candidate list: every author entry whose affiliations include
  the home affiliation, keeping the entry's display name.
\<close>

definition affiliated :: "author_item \<Rightarrow> bool" where
  "affiliated a =
     (case affiliations a of None \<Rightarrow> False | Some affs \<Rightarrow> \<exists>x \<in> set affs. val x = Some AFFIL)"

definition qualified_names :: "author_item list \<Rightarrow> string list" where
  "qualified_names as = List.map_filter (\<lambda>a. if affiliated a then full_name a else None) as"

section \<open>Example records\<close>

text \<open>
  Four authors, two of them with the home affiliation; the target appears under the
  name that the alias table maps to the spelling with the umlaut.
\<close>

definition ex_authors :: "author_item list" where
  "ex_authors =
     [\<lparr>affiliations = Some [\<lparr>val = Some ''CERN''\<rparr>, \<lparr>val = Some ''NICPB, Tallinn''\<rparr>],
       full_name = Some ''Veelken, Christian''\<rparr>,
      \<lparr>affiliations = None, full_name = Some ''Doe, John''\<rparr>,
      \<lparr>affiliations = Some [\<lparr>val = Some ''NICPB, Tallinn''\<rparr>],
       full_name = Some ''Ehataht, Karl''\<rparr>,
      \<lparr>affiliations = Some [\<lparr>val = Some ''CERN''\<rparr>], full_name = Some ''Roe, Jane''\<rparr>]"

text \<open>
  A journal article of four authors with one collaboration, and the same article with
  twelve authors and two collaborations.
\<close>

definition ex_pubinfo :: pubinfo where
  "ex_pubinfo =
     \<lparr>year = Some 2021, journal_title = Some ''JHEP'', journal_volume = Some ''07'',
      page_start = Some ''027'', page_end = None\<rparr>"

definition ex_metadata :: json_metadata where
  "ex_metadata =
     \<lparr>dois = Some [\<lparr>val = Some ''10.1007/JHEP07(2021)027''\<rparr>],
      publication_info =
        Some [\<lparr>year = None, journal_title = None, journal_volume = None, page_start = None,
               page_end = None\<rparr>, ex_pubinfo],
      document_type = Some [''article''],
      titles = Some [\<lparr>title = Some ''A measurement''\<rparr>],
      documents = None,
      urls = Some [\<lparr>val = Some ''https://arxiv.org/abs/2101.00001''\<rparr>],
      authors = Some ex_authors,
      collaborations = Some [\<lparr>val = Some ''CMS''\<rparr>]\<rparr>"

definition ex_others :: "author_item list" where
  "ex_others =
     map (\<lambda>n. \<lparr>affiliations = None, full_name = Some n\<rparr>)
       [''A1'', ''A2'', ''A3'', ''A4'', ''A5'', ''A6'', ''A7'', ''A8'']"

definition ex_metadata_large :: json_metadata where
  "ex_metadata_large =
     ex_metadata\<lparr>authors := Some (ex_authors @ ex_others),
                  collaborations := Some [\<lparr>val = Some ''CMS''\<rparr>, \<lparr>val = Some ''ATLAS''\<rparr>]\<rparr>"


definition ex_pubinfo_no_year :: pubinfo where
  "ex_pubinfo_no_year = ex_pubinfo\<lparr>year := None\<rparr>"

definition ex_metadata_no_year :: json_metadata where
  "ex_metadata_no_year = ex_metadata\<lparr>publication_info := Some [ex_pubinfo_no_year]\<rparr>"

definition ex_metadata_others :: json_metadata where
  "ex_metadata_others = ex_metadata\<lparr>authors := Some ex_others\<rparr>"


definition ex_metadata_no_collab :: json_metadata where
  "ex_metadata_no_collab = ex_metadata\<lparr>collaborations := Some []\<rparr>"

definition ex_metadata_no_doi_no_collab :: json_metadata where
  "ex_metadata_no_doi_no_collab = ex_metadata\<lparr>dois := None, collaborations := Some []\<rparr>"

text \<open>The article with its DOI written as a resolver URL.\<close>

definition ex_metadata_doi_url :: json_metadata where
  "ex_metadata_doi_url =
     ex_metadata\<lparr>dois := Some [\<lparr>val = Some ''https://dx.doi.org/10.1007/JHEP07(2021)027''\<rparr>]\<rparr>"

definition entry_of :: "json_metadata \<Rightarrow> json_entry" where
  "entry_of md = \<lparr>metadata = Some md, entry_id = Some ''1234567''\<rparr>"

text \<open>The dictionary \<open>ris\<close> of the article before its authors are added.\<close>

definition ex_ris :: "(string \<times> ris_val) list" where
  "ex_ris =
     add_av (Some ''https://arxiv.org/abs/2101.00001'')
       (add_pages ex_pubinfo
          (base_ris ''JOUR'' 2021 ''JHEP'' ''07'' ''A measurement'' ''10.1007/JHEP07(2021)027''
             (record_url_of ''1234567'')))"

text \<open>The lines expected for the article.\<close>

definition ex_lines :: "string list" where
  "ex_lines =
     [''TY  - JOUR'', ''PY  - 2021'', ''JO  - JHEP'', ''VL  - 07'', ''T1  - A measurement'',
      ''DO  - https://dx.doi.org/10.1007/JHEP07(2021)027'', ''DB  - WoS'', ''DP  - WoS'',
      ''LA  - English'', ''UR  - https://inspirehep.net/record/1234567'', ''SP  - 027'',
      ''AV  - https://arxiv.org/abs/2101.00001'',
      ''AU  - Ehat'' @ [CHR 0xE4] @ ''ht, Karl'',
      ''AU  - Veelken, Christian (for the CMS Collaboration)'']"

text \<open>
  A query URL and a server that answers the first two requests with status 429 and
  every later one with status 200 and a single page that holds the article and has no
  continuation link.
\<close>

definition ex_url :: string where
  "ex_url = ''https://inspirehep.net/api/literature?q=a+Ehataht%2C+Karl+and+tc+p&size=25&page=1&format=json&sort=mostrecent''"

definition ex_server :: "nat \<Rightarrow> string \<Rightarrow> response" where
  "ex_server k u =
     (if k < 2 then \<lparr>status_code = 429, json = \<lparr>hits = None, links = None\<rparr>\<rparr>
      else \<lparr>status_code = 200,
            json = \<lparr>hits = Some \<lparr>total = Some 1, hits_list = Some [entry_of ex_metadata]\<rparr>,
                    links = Some \<lparr>next_link = None\<rparr>\<rparr>\<rparr>)"

section \<open>Theorems about select\<close>

lemma any_affil_Inr: "any_affil affs = Inr b \<Longrightarrow> b = (\<exists>x \<in> set affs. val x = Some AFFIL)"
  by (induction affs) (auto split: option.splits if_splits)

text \<open>
  When the first loop of \<open>select\<close> ends without raising, what it has collected is the
  specification's candidate list.
\<close>

lemma collect_authors_Inr:
  "collect_authors as sel = Inr r \<Longrightarrow> r = sel @ qualified_names as"
proof (induction as arbitrary: sel)
  case Nil
  then show ?case by (simp add: qualified_names_def)
next
  case (Cons a as)
  show ?case
  proof (cases "affiliations a")
    case None
    with Cons show ?thesis
      by (simp add: qualified_names_def affiliated_def)
  next
    case (Some affs)
    with Cons.prems obtain b where b: "any_affil affs = Inr b"
      by (cases "any_affil affs") auto
    have aff: "affiliated a = b"
      using any_affil_Inr [OF b] Some by (simp add: affiliated_def)
    show ?thesis
    proof (cases b)
      case False
      with Cons Some b aff show ?thesis
        by (simp add: qualified_names_def)
    next
      case True
      with Cons.prems Some b obtain n where n: "full_name a = Some n"
        by (cases "full_name a") auto
      with Cons.prems Some b True have "collect_authors as (sel @ [n]) = Inr r" by simp
      from Cons.IH [OF this] n aff True show ?thesis
        by (simp add: qualified_names_def)
    qed
  qed
qed

text \<open>
  Whenever the first loop ends normally, neither the name nor its alias is among the
  selected names and \<open>keep_affiliation\<close> is set, \<open>select\<close> raises NameError: it returns
  no selection at all.
\<close>

lemma select_NameError:
  assumes "collect_authors authors_all [] = Inr cands"
    and "name \<notin> set cands" and "resolve_alias name \<notin> set cands"
  shows "select authors_all name True = Inl (NameError ''author'')"
  using assms by (auto simp: select_def resolve_alias_def split: option.splits)

text \<open>
  Claim C1 says that with \<open>keep_affiliation\<close> set and the target absent from the
  candidates the selector returns a non-empty selection that contains the target's
  resolved name.  At the author list below (one affiliated author, not the target) the
  code raises NameError instead, because line 103 appends the undefined variable
  \<open>author\<close>.
\<close>

theorem select_keep_affiliation_raises:
  "select [\<lparr>affiliations = Some [\<lparr>val = Some ''NICPB, Tallinn''\<rparr>],
            full_name = Some ''Veelken, Christian''\<rparr>]
      ''Ehataht, Karl'' True = Inl (NameError ''author'')"
  by (simp add: select_def AFFIL_def ALIASES_def)

text \<open>
  Claim C7: whenever the selector succeeds, that is its first loop ends normally with
  the candidates \<open>cands\<close> and the target or its alias-resolved form is among them, its
  output is the list of the resolved candidates in sorted order, and the candidates are
  the display names of the authors with the home affiliation, in the order of the record.
\<close>

theorem select_success:
  assumes "collect_authors authors_all [] = Inr cands"
    and "name \<in> set cands \<or> resolve_alias name \<in> set cands"
  shows "select authors_all name keep_affiliation = Inr (sort (map resolve_alias cands)) \<and>
         cands = qualified_names authors_all"
proof -
  have "cands = qualified_names authors_all"
    using collect_authors_Inr [OF assms(1)] by simp
  moreover have "select authors_all name keep_affiliation = Inr (sort (map resolve_alias cands))"
    using assms
    by (auto simp: select_def resolve_alias_def aliased_sorted_def split: option.splits)
  ultimately show ?thesis by simp
qed

theorem select_success_witness:
  "collect_authors ex_authors [] = Inr [''Veelken, Christian'', ''Ehataht, Karl''] \<and>
   ''Ehataht, Karl'' \<in> set [''Veelken, Christian'', ''Ehataht, Karl''] \<and>
   select ex_authors ''Ehataht, Karl'' False =
     Inr [''Ehat'' @ [CHR 0xE4] @ ''ht, Karl'', ''Veelken, Christian''] \<and>
   qualified_names ex_authors = [''Veelken, Christian'', ''Ehataht, Karl'']"
proof -
  have h1: "collect_authors ex_authors [] = Inr [''Veelken, Christian'', ''Ehataht, Karl'']"
    by (simp add: ex_authors_def AFFIL_def)
  have h2: "''Ehataht, Karl'' \<in> set [''Veelken, Christian'', ''Ehataht, Karl''] \<or>
     resolve_alias ''Ehataht, Karl'' \<in> set [''Veelken, Christian'', ''Ehataht, Karl'']"
    by simp
  have s: "sort (map resolve_alias [''Veelken, Christian'', ''Ehataht, Karl'']) =
      [''Ehat'' @ [CHR 0xE4] @ ''ht, Karl'', ''Veelken, Christian'']"
    by (simp add: resolve_alias_def ALIASES_def)
  note r = select_success [OF h1 h2, of False]
  from r have "select ex_authors ''Ehataht, Karl'' False =
      Inr (sort (map resolve_alias [''Veelken, Christian'', ''Ehataht, Karl'']))"
    by (rule conjunct1)
  then have a: "select ex_authors ''Ehataht, Karl'' False =
      Inr [''Ehat'' @ [CHR 0xE4] @ ''ht, Karl'', ''Veelken, Christian'']"
    by (simp only: s)
  from r have "[''Veelken, Christian'', ''Ehataht, Karl''] = qualified_names ex_authors"
    by (rule conjunct2)
  then have b: "qualified_names ex_authors = [''Veelken, Christian'', ''Ehataht, Karl'']"
    by (rule sym)
  show ?thesis
    by (intro conjI) (fact h1, simp, fact a, fact b)
qed



section \<open>Theorems about join\_with\_and\<close>

text \<open>
  Claim C2, as stated, asks for a comma before the final conjunction of three or more
  names (\<open>A, B, and C\<close>).  The code joins all names but the last with a comma and a
  space and then adds \<open>and\<close> and the last name without a comma: three names give
  \<open>A, B and C\<close>.
\<close>

theorem join_with_and_oxford_counterexample:
  "join_with_and [''A'', ''B'', ''C''] = Inr ''A, B and C'' \<and>
   join_with_and [''A'', ''B'', ''C''] \<noteq> Inr ''A, B, and C''"
  by (simp add: join_with_and_def)

text \<open>
  Claim C2, amended: \<open>join_with_and\<close> renders one name as itself, two names as
  \<open>A and B\<close>, three names as \<open>A, B and C\<close>, and in general three or more names as
  all names but the last joined by a comma and a space, followed by \<open>and\<close> and the
  last name, with no comma before the conjunction.
\<close>

theorem join_with_and_shape:
  "join_with_and [a] = Inr a \<and>
   join_with_and [a, b] = Inr (a @ '' and '' @ b) \<and>
   join_with_and [a, b, c] = Inr (a @ '', '' @ b @ '' and '' @ c) \<and>
   join_with_and (a # b # c # cs) =
     Inr (str_join '', '' (butlast (a # b # c # cs)) @ '' and '' @ last (a # b # c # cs))"
  by (simp add: join_with_and_def)

section \<open>Theorems about get\_ris\<close>

text \<open>The definitions to unfold when a function is run on one of the example records.\<close>

lemmas run_defs = get_ris_def build_ris_def build_fields_def ebind_def getitem_def first_def
  get_doctype_def DOCTYPES_def av_value_def add_av_def add_pages_def base_ris_def select_def
  aliased_sorted_def resolve_alias_def ALIASES_def AFFIL_def add_collaborations_def
  join_with_and_def ris_lines_def record_url_of_def upper_def upper_char_def str_int_def str_nat.simps
  entry_of_def ex_metadata_def ex_pubinfo_def ex_authors_def ex_others_def
  ex_metadata_large_def ex_lines_def

text \<open>
  A record that has an identifier, a first DOI that is not excluded and a publication
  entry with a year reaches line 134.
\<close>

lemma get_ris_reaches_build:
  assumes "metadata entry = Some md" "entry_id entry = Some ident" "dois md = Some (d # ds)"
    "val d = Some doi" "doi \<notin> set excl" "publication_info md = Some pis"
    "find_year pis = Some (p, y)"
  shows "get_ris entry name keep excl =
           ([], build_ris md (record_url_of ident) doi p y name keep)"
  using assms by (simp add: get_ris_def ebind_def first_def getitem_def)

lemma get_ris_Inr_nonempty:
  assumes "get_ris entry name keep excl = (out, Inr lines)" "lines \<noteq> []"
  obtains md ident d ds doi pis p y where
    "metadata entry = Some md" "entry_id entry = Some ident" "dois md = Some (d # ds)"
    "val d = Some doi" "doi \<notin> set excl" "publication_info md = Some pis"
    "find_year pis = Some (p, y)" "out = []"
    "build_ris md (record_url_of ident) doi p y name keep = Inr lines"
  using assms unfolding get_ris_def
  by (auto simp: ebind_def first_def getitem_def
      split: option.splits list.splits sum.splits if_splits prod.splits)

lemma build_ris_Inr_nonempty:
  assumes "build_ris md rurl doi p y name keep = Inr lines" "lines \<noteq> []"
  obtains ris as sel final where
    "build_fields md rurl doi p y = Inr ris" "authors md = Some as"
    "select as name keep = Inr sel" "sel \<noteq> []"
    "add_collaborations (collaborations md) (length as) sel = Inr final"
    "lines = ris_lines (setitem ris ''au'' (Lst final))"
  using assms unfolding build_ris_def
  by (auto simp: ebind_def getitem_def split: option.splits sum.splits if_splits)

lemma build_fields_Inr:
  assumes "build_fields md rurl doi p y = Inr ris"
  obtains dt dts ty jo vl t ts t1 av where
    "document_type md = Some (dt # dts)" "DOCTYPES dt = Some ty"
    "journal_title p = Some jo" "journal_volume p = Some vl"
    "titles md = Some (t # ts)" "title t = Some t1" "av_value md = Inr av"
    "ris = add_av av (add_pages p (base_ris ty y jo vl t1 doi rurl))"
  using assms unfolding build_fields_def
  by (auto simp: ebind_def getitem_def first_def get_doctype_def
      split: option.splits sum.splits list.splits)

lemma ris_lines_fields:
  "ris_lines (add_av av (add_pages p (base_ris ty y jo vl t1 doi rurl))) =
     [''TY  - '' @ ty, ''PY  - '' @ str_int y, ''JO  - '' @ jo, ''VL  - '' @ vl,
      ''T1  - '' @ t1, ''DO  - https://dx.doi.org/'' @ doi, ''DB  - WoS'', ''DP  - WoS'',
      ''LA  - English'', ''UR  - '' @ rurl] @
     (case page_start p of None \<Rightarrow> [] | Some sp \<Rightarrow> [''SP  - '' @ sp]) @
     (case page_end p of None \<Rightarrow> [] | Some ep \<Rightarrow> [''EP  - '' @ ep]) @
     (case av of None \<Rightarrow> [] | Some a \<Rightarrow> [''AV  - '' @ a])"
  by (simp add: ris_lines_def add_av_def add_pages_def base_ris_def upper_def upper_char_def
      split: option.splits)

lemma au_fresh: "''au'' \<notin> fst ` set (add_av av (add_pages p (base_ris ty y jo vl t1 doi rurl)))"
  by (simp add: add_av_def add_pages_def base_ris_def Let_def split: option.splits)

lemma ris_lines_setitem_fresh:
  "k \<notin> fst ` set ris \<Longrightarrow> ris_lines (setitem ris k v) = ris_lines ris @ item_lines (k, v)"
  by (induction ris) (auto simp: ris_lines_def)

lemma ris_lines_au:
  assumes "build_fields md rurl doi p y = Inr ris"
  shows "ris_lines (setitem ris ''au'' (Lst final)) = ris_lines ris @ map (\<lambda>a. ''AU  - '' @ a) final"
proof -
  from assms obtain ty jo vl t1 av where "ris = add_av av (add_pages p (base_ris ty y jo vl t1 doi rurl))"
    by (rule build_fields_Inr)
  then have "''au'' \<notin> fst ` set ris" by (simp only: au_fresh not_False_eq_True)
  then show ?thesis by (simp add: ris_lines_setitem_fresh upper_def upper_char_def)
qed

lemma find_year_None: "(find_year pis = None) = (\<forall>p \<in> set pis. year p = None)"
  by (induction pis) (auto split: option.splits)

text \<open>From line 155 on, once the dictionary is built and the selector has returned.\<close>

lemma build_ris_selected:
  assumes "build_fields md rurl doi p y = Inr ris" "authors md = Some as"
    "select as name keep = Inr sel"
  shows "build_ris md rurl doi p y name keep =
           (if sel = [] then Inr []
            else ebind (add_collaborations (collaborations md) (length as) sel)
                   (\<lambda>final. Inr (ris_lines ris @ map (\<lambda>a. ''AU  - '' @ a) final)))"
  using assms by (simp add: build_ris_def ebind_def getitem_def ris_lines_au)


lemma join_with_and_total: "arr \<noteq> [] \<Longrightarrow> \<exists>joined. join_with_and arr = Inr joined"
  by (simp add: join_with_and_def)

lemma collab_values_length: "collab_values cs = Inr vs \<Longrightarrow> length vs = length cs"
  by (induction cs arbitrary: vs)
    (auto simp: ebind_def getitem_def split: option.splits sum.splits)

lemma add_collaborations_nonempty:
  "add_collaborations cf n sel = Inr final \<Longrightarrow> sel \<noteq> [] \<Longrightarrow> final \<noteq> []"
  by (auto simp: add_collaborations_def ebind_def Let_def
      split: option.splits sum.splits if_splits)

subsection \<open>The example records\<close>

lemma ex_find_year:
  "find_year [\<lparr>year = None, journal_title = None, journal_volume = None, page_start = None,
               page_end = None\<rparr>, ex_pubinfo] = Some (ex_pubinfo, 2021)"
  by (simp add: ex_pubinfo_def)

lemma ex_build_fields:
  "build_fields ex_metadata (record_url_of ''1234567'') ''10.1007/JHEP07(2021)027''
     ex_pubinfo 2021 = Inr ex_ris"
  "build_fields ex_metadata_large (record_url_of ''1234567'') ''10.1007/JHEP07(2021)027''
     ex_pubinfo 2021 = Inr ex_ris"
  "build_fields ex_metadata_others (record_url_of ''1234567'') ''10.1007/JHEP07(2021)027''
     ex_pubinfo 2021 = Inr ex_ris"
  "build_fields ex_metadata_no_collab (record_url_of ''1234567'') ''10.1007/JHEP07(2021)027''
     ex_pubinfo 2021 = Inr ex_ris"
  by (simp_all add: build_fields_def ebind_def getitem_def first_def get_doctype_def
      DOCTYPES_def av_value_def ex_metadata_def ex_metadata_large_def ex_metadata_others_def
      ex_metadata_no_collab_def ex_pubinfo_def ex_ris_def)

lemma ex_ris_lines:
  "ris_lines ex_ris =
     [''TY  - JOUR'', ''PY  - 2021'', ''JO  - JHEP'', ''VL  - 07'', ''T1  - A measurement'',
      ''DO  - https://dx.doi.org/10.1007/JHEP07(2021)027'', ''DB  - WoS'', ''DP  - WoS'',
      ''LA  - English'', ''UR  - https://inspirehep.net/record/1234567'', ''SP  - 027'',
      ''AV  - https://arxiv.org/abs/2101.00001'']"
  by (simp add: ex_ris_def ris_lines_fields ex_pubinfo_def record_url_of_def str_int_def
      str_nat.simps)

lemma ex_select:
  "select ex_authors ''Ehataht, Karl'' False =
     Inr [''Ehat'' @ [CHR 0xE4] @ ''ht, Karl'', ''Veelken, Christian'']"
  "select (ex_authors @ ex_others) ''Ehataht, Karl'' False =
     Inr [''Ehat'' @ [CHR 0xE4] @ ''ht, Karl'', ''Veelken, Christian'']"
  by (simp_all add: select_def aliased_sorted_def resolve_alias_def ALIASES_def AFFIL_def
      ex_authors_def ex_others_def)


subsection \<open>A missing year\<close>

text \<open>
  Claim C6: a record that passes the DOI-presence and exclusion checks (it has an
  identifier, a first DOI, and that DOI is not excluded) and whose publication\_info
  list has no entry with a year makes \<open>get_ris\<close> print the record's metadata and raise
  the RuntimeError of line 132; it is not dropped.
\<close>

theorem get_ris_no_year:
  assumes "metadata entry = Some md" and "entry_id entry = Some ident"
    and "dois md = Some (d # ds)" and "val d = Some doi" and "doi \<notin> set dois_to_exclude"
    and "publication_info md = Some pis" and "\<forall>p \<in> set pis. year p = None"
  shows "get_ris entry name keep_affiliation dois_to_exclude =
           ([md], Inl (RuntimeError ''No publication year found in the above entry''))"
proof -
  from assms(7) have "find_year pis = None" by (simp add: find_year_None)
  with assms(1-6) show ?thesis
    by (simp add: get_ris_def ebind_def first_def getitem_def)
qed

theorem get_ris_no_year_witness:
  "publication_info ex_metadata_no_year = Some [ex_pubinfo_no_year] \<and>
   year ex_pubinfo_no_year = None \<and>
   get_ris (entry_of ex_metadata_no_year) ''Ehataht, Karl'' False [] =
     ([ex_metadata_no_year], Inl (RuntimeError ''No publication year found in the above entry''))"
proof -
  have h1: "metadata (entry_of ex_metadata_no_year) = Some ex_metadata_no_year"
    and h2: "entry_id (entry_of ex_metadata_no_year) = Some ''1234567''"
    by (simp_all add: entry_of_def)
  have h3: "dois ex_metadata_no_year = Some (\<lparr>val = Some ''10.1007/JHEP07(2021)027''\<rparr> # [])"
    and h6: "publication_info ex_metadata_no_year = Some [ex_pubinfo_no_year]"
    by (simp_all add: ex_metadata_no_year_def ex_metadata_def)
  have h4: "val \<lparr>val = Some ''10.1007/JHEP07(2021)027''\<rparr> = Some ''10.1007/JHEP07(2021)027''"
    and h5: "''10.1007/JHEP07(2021)027'' \<notin> set []"
    by simp_all
  have h7: "\<forall>p \<in> set [ex_pubinfo_no_year]. year p = None"
    by (simp add: ex_pubinfo_no_year_def)
  have h8: "year ex_pubinfo_no_year = None"
    by (simp add: ex_pubinfo_no_year_def)
  from get_ris_no_year [OF h1 h2 h3 h4 h5 h6 h7] h6 h8 show ?thesis by blast
qed

subsection \<open>Records that give no output\<close>




text \<open>
  The exclusion test compares the DOI as the record writes it: a record whose DOI is a
  resolver URL is not dropped when the exclusion list holds the bare DOI, which is what
  the loader makes of that URL.
\<close>

lemma get_ris_exclusion_verbatim:
  "fst (get_ris (entry_of ex_metadata_doi_url) ''Ehataht, Karl'' False
          [''10.1007/JHEP07(2021)027'']) = [] \<and>
   map_sum id length (snd (get_ris (entry_of ex_metadata_doi_url) ''Ehataht, Karl'' False
          [''10.1007/JHEP07(2021)027''])) = Inr 14"
  by (simp add: run_defs ex_metadata_doi_url_def)

subsection \<open>The collaboration rule\<close>

text \<open>
  Claim C10 says that a record whose collaborations list is present and empty makes the
  transformer fail with an assertion error rather than drop the record.  The record
  below has such a list and no DOI: \<open>get_ris\<close> returns at line 118 and the record is
  dropped, with the empty result and no exception.
\<close>

theorem get_ris_empty_collaborations_counterexample:
  "collaborations ex_metadata_no_doi_no_collab = Some [] \<and>
   get_ris (entry_of ex_metadata_no_doi_no_collab) ''Ehataht, Karl'' False [] = ([], Inr [])"
  by (simp add: get_ris_def entry_of_def ex_metadata_no_doi_no_collab_def ex_metadata_def)

text \<open>
  Claim C10, amended: if the collaborations list is present and empty and the record
  reaches line 161, that is it has metadata and an identifier, a first DOI that is not
  excluded, a publication entry with a year, fields from which lines 134 to 153 build
  the dictionary without raising, and an author list for which the selector returns a
  non-empty selection, then \<open>get_ris\<close> prints nothing and fails with the AssertionError
  of \<open>join_with_and\<close>; it neither drops the record nor returns lines.
\<close>

theorem get_ris_empty_collaborations:
  assumes "metadata entry = Some md" and "entry_id entry = Some ident"
    and "dois md = Some (d # ds)" and "val d = Some doi" and "doi \<notin> set dois_to_exclude"
    and "publication_info md = Some pis" and "find_year pis = Some (p, y)"
    and "build_fields md (record_url_of ident) doi p y = Inr ris"
    and "authors md = Some as" and "select as name keep_affiliation = Inr sel" and "sel \<noteq> []"
    and "collaborations md = Some []"
  shows "get_ris entry name keep_affiliation dois_to_exclude = ([], Inl AssertionError)"
  using assms(11,12)
  by (simp add: get_ris_reaches_build [OF assms(1-7)] build_ris_selected [OF assms(8-10)]
      add_collaborations_def ebind_def join_with_and_def)

theorem get_ris_empty_collaborations_witness:
  "collaborations ex_metadata_no_collab = Some [] \<and>
   select ex_authors ''Ehataht, Karl'' False =
     Inr [''Ehat'' @ [CHR 0xE4] @ ''ht, Karl'', ''Veelken, Christian''] \<and>
   get_ris (entry_of ex_metadata_no_collab) ''Ehataht, Karl'' False [] =
     ([], Inl AssertionError)"
proof -
  have h1: "metadata (entry_of ex_metadata_no_collab) = Some ex_metadata_no_collab"
    and h2: "entry_id (entry_of ex_metadata_no_collab) = Some ''1234567''"
    by (simp_all add: entry_of_def)
  have h3: "dois ex_metadata_no_collab = Some (\<lparr>val = Some ''10.1007/JHEP07(2021)027''\<rparr> # [])"
    and h6: "publication_info ex_metadata_no_collab =
          Some [\<lparr>year = None, journal_title = None, journal_volume = None, page_start = None,
                 page_end = None\<rparr>, ex_pubinfo]"
    and h9: "authors ex_metadata_no_collab = Some ex_authors"
    and h12: "collaborations ex_metadata_no_collab = Some []"
    by (simp_all add: ex_metadata_no_collab_def ex_metadata_def)
  have h4: "val \<lparr>val = Some ''10.1007/JHEP07(2021)027''\<rparr> = Some ''10.1007/JHEP07(2021)027''"
    and h5: "''10.1007/JHEP07(2021)027'' \<notin> set []"
    and h11: "[''Ehat'' @ [CHR 0xE4] @ ''ht, Karl'', ''Veelken, Christian''] \<noteq> []"
    by simp_all
  from get_ris_empty_collaborations
    [OF h1 h2 h3 h4 h5 h6 ex_find_year ex_build_fields(4) h9 ex_select(1) h11 h12]
    h12 ex_select(1)
  show ?thesis by blast
qed

text \<open>
  Claim C4: for a record that reaches line 161 with the non-empty selection \<open>sel\<close> and
  that carries the collaborations \<open>cs\<close>, each with a name, \<open>get_ris\<close> returns the lines
  of the dictionary followed by one AU line per author, where the authors are: if the
  record lists fewer than ten authors, the selection with
  \<open>(for the <collab> Collaboration[s])\<close> added after a space to its last name;
  otherwise the selection followed by the author \<open>et al. (<collab> Collaboration[s])\<close>.
  Here \<open><collab>\<close> is what \<open>join_with_and\<close> makes of the sorted names, and the \<open>s\<close> is
  there exactly when more than one collaboration is listed.
\<close>

theorem get_ris_collaboration_rule:
  assumes "metadata entry = Some md" and "entry_id entry = Some ident"
    and "dois md = Some (d # ds)" and "val d = Some doi" and "doi \<notin> set dois_to_exclude"
    and "publication_info md = Some pis" and "find_year pis = Some (p, y)"
    and "build_fields md (record_url_of ident) doi p y = Inr ris"
    and "authors md = Some as" and "select as name keep_affiliation = Inr sel" and "sel \<noteq> []"
    and "collaborations md = Some cs" and "cs \<noteq> []" and "collab_values cs = Inr vs"
  shows "\<exists>joined. join_with_and (sort vs) = Inr joined \<and>
           get_ris entry name keep_affiliation dois_to_exclude =
             ([], Inr (ris_lines ris @ map (\<lambda>a. ''AU  - '' @ a)
                (if length as < 10
                 then butlast sel @
                      [last sel @ '' (for the '' @ joined @ '' Collaboration'' @
                                  (if 1 < length cs then ''s'' else []) @ '')'']
                 else sel @
                      [''et al. ('' @ joined @ '' Collaboration'' @
                                  (if 1 < length cs then ''s'' else []) @ '')''])))"
proof -
  have len: "length vs = length cs" by (rule collab_values_length [OF assms(14)])
  with assms(13) have "vs \<noteq> []" by auto
  then have ne: "sort vs \<noteq> []" by (metis length_0_conv length_sort)
  from join_with_and_total [OF ne] obtain joined where j: "join_with_and (sort vs) = Inr joined"
    by blast
  have "get_ris entry name keep_affiliation dois_to_exclude =
             ([], Inr (ris_lines ris @ map (\<lambda>a. ''AU  - '' @ a)
                (if length as < 10
                 then butlast sel @
                      [last sel @ '' (for the '' @ joined @ '' Collaboration'' @
                                  (if 1 < length cs then ''s'' else []) @ '')'']
                 else sel @
                      [''et al. ('' @ joined @ '' Collaboration'' @
                                  (if 1 < length cs then ''s'' else []) @ '')''])))"
    using assms(11,12,14) j len
    by (simp add: get_ris_reaches_build [OF assms(1-7)] build_ris_selected [OF assms(8-10)]
        add_collaborations_def ebind_def)
  with j show ?thesis by blast
qed

theorem get_ris_collaboration_rule_witness:
  "get_ris (entry_of ex_metadata) ''Ehataht, Karl'' False [] =
     ([], Inr
       [''TY  - JOUR'', ''PY  - 2021'', ''JO  - JHEP'', ''VL  - 07'', ''T1  - A measurement'',
        ''DO  - https://dx.doi.org/10.1007/JHEP07(2021)027'', ''DB  - WoS'', ''DP  - WoS'',
        ''LA  - English'', ''UR  - https://inspirehep.net/record/1234567'', ''SP  - 027'',
        ''AV  - https://arxiv.org/abs/2101.00001'',
        ''AU  - Ehat'' @ [CHR 0xE4] @ ''ht, Karl'',
        ''AU  - Veelken, Christian (for the CMS Collaboration)'']) \<and>
   get_ris (entry_of ex_metadata_large) ''Ehataht, Karl'' False [] =
     ([], Inr
       [''TY  - JOUR'', ''PY  - 2021'', ''JO  - JHEP'', ''VL  - 07'', ''T1  - A measurement'',
        ''DO  - https://dx.doi.org/10.1007/JHEP07(2021)027'', ''DB  - WoS'', ''DP  - WoS'',
        ''LA  - English'', ''UR  - https://inspirehep.net/record/1234567'', ''SP  - 027'',
        ''AV  - https://arxiv.org/abs/2101.00001'',
        ''AU  - Ehat'' @ [CHR 0xE4] @ ''ht, Karl'', ''AU  - Veelken, Christian'',
        ''AU  - et al. (ATLAS and CMS Collaborations)''])"
proof -
  have id: "\<And>md. metadata (entry_of md) = Some md"
    "\<And>md. entry_id (entry_of md) = Some ''1234567''"
    by (simp_all add: entry_of_def)
  have h4: "val \<lparr>val = Some ''10.1007/JHEP07(2021)027''\<rparr> = Some ''10.1007/JHEP07(2021)027''"
    and h5: "''10.1007/JHEP07(2021)027'' \<notin> set []"
    and h11: "[''Ehat'' @ [CHR 0xE4] @ ''ht, Karl'', ''Veelken, Christian''] \<noteq> []"
    by simp_all
  have s3: "dois ex_metadata = Some (\<lparr>val = Some ''10.1007/JHEP07(2021)027''\<rparr> # [])"
    and s6: "publication_info ex_metadata =
          Some [\<lparr>year = None, journal_title = None, journal_volume = None, page_start = None,
                 page_end = None\<rparr>, ex_pubinfo]"
    and s9: "authors ex_metadata = Some ex_authors"
    and s12: "collaborations ex_metadata = Some [\<lparr>val = Some ''CMS''\<rparr>]"
    by (simp_all add: ex_metadata_def)
  have s13: "[\<lparr>val = Some ''CMS''\<rparr>] \<noteq> []"
    and s14: "collab_values [\<lparr>val = Some ''CMS''\<rparr>] = Inr [''CMS'']"
    by (simp_all add: ebind_def getitem_def)
  have j1: "join_with_and (sort [''CMS'']) = Inr ''CMS''"
    by (simp add: join_with_and_def)
  from get_ris_collaboration_rule
    [OF id(1) id(2) s3 h4 h5 s6 ex_find_year ex_build_fields(1) s9 ex_select(1) h11 s12 s13 s14]
    j1
  have small: "get_ris (entry_of ex_metadata) ''Ehataht, Karl'' False [] =
     ([], Inr
       [''TY  - JOUR'', ''PY  - 2021'', ''JO  - JHEP'', ''VL  - 07'', ''T1  - A measurement'',
        ''DO  - https://dx.doi.org/10.1007/JHEP07(2021)027'', ''DB  - WoS'', ''DP  - WoS'',
        ''LA  - English'', ''UR  - https://inspirehep.net/record/1234567'', ''SP  - 027'',
        ''AV  - https://arxiv.org/abs/2101.00001'',
        ''AU  - Ehat'' @ [CHR 0xE4] @ ''ht, Karl'',
        ''AU  - Veelken, Christian (for the CMS Collaboration)''])"
    by (elim exE conjE) (simp add: ex_ris_lines ex_authors_def)
  have l3: "dois ex_metadata_large = Some (\<lparr>val = Some ''10.1007/JHEP07(2021)027''\<rparr> # [])"
    and l6: "publication_info ex_metadata_large =
          Some [\<lparr>year = None, journal_title = None, journal_volume = None, page_start = None,
                 page_end = None\<rparr>, ex_pubinfo]"
    and l9: "authors ex_metadata_large = Some (ex_authors @ ex_others)"
    and l12: "collaborations ex_metadata_large =
          Some [\<lparr>val = Some ''CMS''\<rparr>, \<lparr>val = Some ''ATLAS''\<rparr>]"
    by (simp_all add: ex_metadata_large_def ex_metadata_def)
  have l13: "[\<lparr>val = Some ''CMS''\<rparr>, \<lparr>val = Some ''ATLAS''\<rparr>] \<noteq> []"
    and l14: "collab_values [\<lparr>val = Some ''CMS''\<rparr>, \<lparr>val = Some ''ATLAS''\<rparr>] =
          Inr [''CMS'', ''ATLAS'']"
    by (simp_all add: ebind_def getitem_def)
  have j2: "join_with_and (sort [''CMS'', ''ATLAS'']) = Inr ''ATLAS and CMS''"
    by (simp add: join_with_and_def)
  from get_ris_collaboration_rule
    [OF id(1) id(2) l3 h4 h5 l6 ex_find_year ex_build_fields(2) l9 ex_select(2) h11 l12 l13 l14]
    j2
  have large: "get_ris (entry_of ex_metadata_large) ''Ehataht, Karl'' False [] =
     ([], Inr
       [''TY  - JOUR'', ''PY  - 2021'', ''JO  - JHEP'', ''VL  - 07'', ''T1  - A measurement'',
        ''DO  - https://dx.doi.org/10.1007/JHEP07(2021)027'', ''DB  - WoS'', ''DP  - WoS'',
        ''LA  - English'', ''UR  - https://inspirehep.net/record/1234567'', ''SP  - 027'',
        ''AV  - https://arxiv.org/abs/2101.00001'',
        ''AU  - Ehat'' @ [CHR 0xE4] @ ''ht, Karl'', ''AU  - Veelken, Christian'',
        ''AU  - et al. (ATLAS and CMS Collaborations)''])"
    by (elim exE conjE) (simp add: ex_ris_lines ex_authors_def ex_others_def)
  from small large show ?thesis by (rule conjI)
qed

subsection \<open>The order of the lines\<close>

lemma ex_get_ris: "get_ris (entry_of ex_metadata) ''Ehataht, Karl'' False [] = ([], Inr ex_lines)"
  by (simp add: run_defs)

text \<open>
  Claim C8: every non-empty result of \<open>get_ris\<close> consists of the ten lines TY (the code
  of the first document type), PY (the year of the first publication entry that has
  one), JO, VL (that entry's journal title and volume), T1 (the first title), DO (the
  resolver URL of the first DOI), DB and DP (both \<open>WoS\<close>), LA (\<open>English\<close>) and UR (the
  URL of the record), in this order; then of the lines SP, EP and AV, each only if the
  record has the field; then of one AU line per author, at least one.  Every line is the
  upper-cased code, two spaces, a hyphen, a space and the value.
\<close>

theorem get_ris_field_order:
  assumes "get_ris entry name keep_affiliation dois_to_exclude = (out, Inr lines)"
    and "lines \<noteq> []"
  shows "\<exists>md ident d ds doi pis p y dt dts ty jo vl t ts t1 av as sel aus.
           metadata entry = Some md \<and> entry_id entry = Some ident \<and>
           dois md = Some (d # ds) \<and> val d = Some doi \<and>
           publication_info md = Some pis \<and> find_year pis = Some (p, y) \<and>
           document_type md = Some (dt # dts) \<and> DOCTYPES dt = Some ty \<and>
           journal_title p = Some jo \<and> journal_volume p = Some vl \<and>
           titles md = Some (t # ts) \<and> title t = Some t1 \<and> av_value md = Inr av \<and>
           authors md = Some as \<and> select as name keep_affiliation = Inr sel \<and>
           add_collaborations (collaborations md) (length as) sel = Inr aus \<and> aus \<noteq> [] \<and>
           lines =
             [''TY  - '' @ ty, ''PY  - '' @ str_int y, ''JO  - '' @ jo, ''VL  - '' @ vl,
              ''T1  - '' @ t1, ''DO  - https://dx.doi.org/'' @ doi, ''DB  - WoS'',
              ''DP  - WoS'', ''LA  - English'', ''UR  - '' @ record_url_of ident] @
             (case page_start p of None \<Rightarrow> [] | Some sp \<Rightarrow> [''SP  - '' @ sp]) @
             (case page_end p of None \<Rightarrow> [] | Some ep \<Rightarrow> [''EP  - '' @ ep]) @
             (case av of None \<Rightarrow> [] | Some a \<Rightarrow> [''AV  - '' @ a]) @
             map (\<lambda>a. ''AU  - '' @ a) aus"
proof -
  from assms obtain md ident d ds doi pis p y where
    r: "metadata entry = Some md" "entry_id entry = Some ident" "dois md = Some (d # ds)"
      "val d = Some doi" "publication_info md = Some pis" "find_year pis = Some (p, y)"
    and b: "build_ris md (record_url_of ident) doi p y name keep_affiliation = Inr lines"
    by (rule get_ris_Inr_nonempty)
  from b assms(2) obtain ris as sel aus where
    f: "build_fields md (record_url_of ident) doi p y = Inr ris"
    and a: "authors md = Some as" "select as name keep_affiliation = Inr sel"
      "add_collaborations (collaborations md) (length as) sel = Inr aus"
    and ne: "sel \<noteq> []"
    and l: "lines = ris_lines (setitem ris ''au'' (Lst aus))"
    by (rule build_ris_Inr_nonempty)
  from f obtain dt dts ty jo vl t ts t1 av where
    c: "document_type md = Some (dt # dts)" "DOCTYPES dt = Some ty"
      "journal_title p = Some jo" "journal_volume p = Some vl"
      "titles md = Some (t # ts)" "title t = Some t1" "av_value md = Inr av"
    and ris: "ris = add_av av (add_pages p (base_ris ty y jo vl t1 doi (record_url_of ident)))"
    by (rule build_fields_Inr)
  have aus: "aus \<noteq> []" by (rule add_collaborations_nonempty [OF a(3) ne])
  have "lines = ris_lines ris @ map (\<lambda>a. ''AU  - '' @ a) aus"
    by (simp only: l ris_lines_au [OF f])
  then have lines: "lines =
             [''TY  - '' @ ty, ''PY  - '' @ str_int y, ''JO  - '' @ jo, ''VL  - '' @ vl,
              ''T1  - '' @ t1, ''DO  - https://dx.doi.org/'' @ doi, ''DB  - WoS'',
              ''DP  - WoS'', ''LA  - English'', ''UR  - '' @ record_url_of ident] @
             (case page_start p of None \<Rightarrow> [] | Some sp \<Rightarrow> [''SP  - '' @ sp]) @
             (case page_end p of None \<Rightarrow> [] | Some ep \<Rightarrow> [''EP  - '' @ ep]) @
             (case av of None \<Rightarrow> [] | Some a \<Rightarrow> [''AV  - '' @ a]) @
             map (\<lambda>a. ''AU  - '' @ a) aus"
    by (simp only: ris ris_lines_fields append_assoc)
  show ?thesis
    by (intro exI conjI) (rule r c a aus lines)+
qed

theorem get_ris_field_order_witness:
  "get_ris (entry_of ex_metadata) ''Ehataht, Karl'' False [] = ([], Inr ex_lines) \<and>
   ex_lines \<noteq> [] \<and>
   (\<exists>md ident d ds doi pis p y dt dts ty jo vl t ts t1 av as sel aus.
           metadata (entry_of ex_metadata) = Some md \<and> entry_id (entry_of ex_metadata) = Some ident \<and>
           dois md = Some (d # ds) \<and> val d = Some doi \<and>
           publication_info md = Some pis \<and> find_year pis = Some (p, y) \<and>
           document_type md = Some (dt # dts) \<and> DOCTYPES dt = Some ty \<and>
           journal_title p = Some jo \<and> journal_volume p = Some vl \<and>
           titles md = Some (t # ts) \<and> title t = Some t1 \<and> av_value md = Inr av \<and>
           authors md = Some as \<and> select as ''Ehataht, Karl'' False = Inr sel \<and>
           add_collaborations (collaborations md) (length as) sel = Inr aus \<and> aus \<noteq> [] \<and>
           ex_lines =
             [''TY  - '' @ ty, ''PY  - '' @ str_int y, ''JO  - '' @ jo, ''VL  - '' @ vl,
              ''T1  - '' @ t1, ''DO  - https://dx.doi.org/'' @ doi, ''DB  - WoS'',
              ''DP  - WoS'', ''LA  - English'', ''UR  - '' @ record_url_of ident] @
             (case page_start p of None \<Rightarrow> [] | Some sp \<Rightarrow> [''SP  - '' @ sp]) @
             (case page_end p of None \<Rightarrow> [] | Some ep \<Rightarrow> [''EP  - '' @ ep]) @
             (case av of None \<Rightarrow> [] | Some a \<Rightarrow> [''AV  - '' @ a]) @
             map (\<lambda>a. ''AU  - '' @ a) aus)"
proof -
  have ne: "ex_lines \<noteq> []" by (simp add: ex_lines_def)
  show ?thesis
    by (intro conjI) (rule ex_get_ris, rule ne, rule get_ris_field_order [OF ex_get_ris ne])
qed

section \<open>The DOI line read back by exclude\_dois\_from\<close>

text \<open>
  One step of \<open>replace\<close> and of \<open>split_acc\<close> at a string with a first character, and
  their results on a string in which the pattern does not occur.
\<close>

lemma replace_Nil: "old \<noteq> [] \<Longrightarrow> replace old new [] = []"
  by (simp add: replace.simps)

lemma replace_match:
  "old \<noteq> [] \<Longrightarrow> startswith (c # s) old \<Longrightarrow>
   replace old new (c # s) = new @ replace old new (drop (length old) (c # s))"
  by (subst replace.simps) simp

lemma replace_nomatch:
  "old \<noteq> [] \<Longrightarrow> \<not> startswith (c # s) old \<Longrightarrow>
   replace old new (c # s) = c # replace old new s"
  by (subst replace.simps) simp

lemma replace_none: "old \<noteq> [] \<Longrightarrow> \<not> contains old s \<Longrightarrow> replace old new s = s"
  by (induction s) (simp_all add: replace_Nil replace_nomatch)

lemma split_acc_Nil: "split_acc sep cur [] = [rev cur]"
  by (simp add: split_acc.simps)

lemma split_acc_match:
  "sep \<noteq> [] \<Longrightarrow> startswith (c # s) sep \<Longrightarrow>
   split_acc sep cur (c # s) = rev cur # split_acc sep [] (drop (length sep) (c # s))"
  by (subst split_acc.simps) simp

lemma split_acc_nomatch:
  "\<not> startswith (c # s) sep \<Longrightarrow> split_acc sep cur (c # s) = split_acc sep (c # cur) s"
  by (subst split_acc.simps) simp

lemma split_acc_none: "\<not> contains sep s \<Longrightarrow> split_acc sep cur s = [rev cur @ s]"
  by (induction s arbitrary: cur) (simp_all add: split_acc_Nil split_acc_nomatch)

lemma strip_keeps:
  assumes "xs \<noteq> []" "\<not> isspace (hd xs)" "\<not> isspace (last xs)" "\<forall>c \<in> set ws. isspace c"
  shows "strip (xs @ ws) = xs"
proof -
  from assms(1,2) have "dropWhile isspace (xs @ ws) = xs @ ws"
    by (cases xs) auto
  moreover from assms(1,3,4) have "dropWhile isspace (rev ws @ rev xs) = rev xs"
    by (cases xs rule: rev_cases) (auto simp: dropWhile_append)
  ultimately show ?thesis by (simp add: strip_def)
qed

lemma do_line_eq:
  "item_lines (''do'', Str (''https://dx.doi.org/'' @ d)) = [''DO  - https://dx.doi.org/'' @ d]"
  by (simp add: upper_def upper_char_def)

lemma last_prefixed:
  "d = [] \<or> \<not> isspace (last d) \<Longrightarrow> \<not> isspace (last (pre @ CHR ''/'' # d))"
  by (auto simp: isspace_def)

lemma split_do_line:
  assumes "\<not> contains '' - '' d"
  shows "split (''DO  - https://dx.doi.org/'' @ d) '' - '' = [''DO '', ''https://dx.doi.org/'' @ d]"
proof -
  from assms have "\<not> contains '' - '' (''https://dx.doi.org/'' @ d)"
    by (simp add: startswith_def)
  from split_acc_none [OF this, of "[]"]
  have "split_acc '' - '' [] (''https://dx.doi.org/'' @ d) = [''https://dx.doi.org/'' @ d]"
    by simp
  then show ?thesis
    by (simp add: split_def split_acc_match split_acc_nomatch startswith_def)
qed

lemma replace_url:
  assumes "\<not> contains ''https'' d" "\<not> contains ''http://dx.doi.org/'' d"
  shows "replace ''http://dx.doi.org/'' [] (replace ''https'' ''http'' (''https://dx.doi.org/'' @ d)) = d"
proof -
  have r: "replace ''https'' ''http'' d = d"
    by (rule replace_none) (simp_all add: assms)
  have "replace ''https'' ''http'' (''https://dx.doi.org/'' @ d) = ''http://dx.doi.org/'' @ d"
    by (simp add: replace_match replace_nomatch startswith_def r)
  moreover have "replace ''http://dx.doi.org/'' [] d = d"
    by (rule replace_none) (simp_all add: assms)
  then have "replace ''http://dx.doi.org/'' [] (''http://dx.doi.org/'' @ d) = d"
    by (simp add: replace_match startswith_def)
  ultimately show ?thesis by simp
qed

text \<open>A text without carriage returns and line feeds is read as one line.\<close>

lemma translate_newlines_id: "CHR 0x0D \<notin> set s \<Longrightarrow> translate_newlines s = s"
  by (induction s rule: translate_newlines.induct) auto

lemma lines_acc_one:
  "CHR 0x0A \<notin> set s \<Longrightarrow> lines_acc cur s = (if rev cur @ s = [] then [] else [rev cur @ s])"
  by (induction s arbitrary: cur) auto

lemma lines_acc_terminated:
  "CHR 0x0A \<notin> set s \<Longrightarrow> lines_acc cur (s @ [CHR 0x0A]) = [rev cur @ s @ [CHR 0x0A]]"
  by (induction s arbitrary: cur) auto

lemma file_lines_one:
  assumes "CHR 0x0A \<notin> set s" and "CHR 0x0D \<notin> set s" and "s \<noteq> []"
  shows "file_lines s = [s]" and "file_lines (s @ [CHR 0x0A]) = [s @ [CHR 0x0A]]"
proof -
  from assms show "file_lines s = [s]"
    by (simp add: file_lines_def translate_newlines_id lines_acc_one)
  from assms(2) have "translate_newlines (s @ [CHR 0x0A]) = s @ [CHR 0x0A]"
    by (intro translate_newlines_id) simp
  with assms(1) show "file_lines (s @ [CHR 0x0A]) = [s @ [CHR 0x0A]]"
    by (simp add: file_lines_def lines_acc_terminated)
qed

text \<open>
  A DOI with a line break inside is written as one DO line but read back as two lines,
  of which only the first is a DO line: the loader returns the part before the break.
\<close>

lemma doi_line_break_read_back:
  "exclude_dois_from
     [''publications.ris'' \<mapsto> ''DO  - https://dx.doi.org/10.1/a'' @ [CHR 0x0A] @ ''b'']
     ''publications.ris'' = Inr [''10.1/a'']"
  by (simp add: exclude_dois_from_def file_lines_def strip_def isspace_def split_def
      startswith_def split_acc_Nil split_acc_match split_acc_nomatch replace_Nil replace_match
      replace_nomatch)

text \<open>
  Claim C3 says that for every DOI string the DO line of the export, read back by the
  loader, gives the string again.  For the string \<open>10.1000/https\<close> it gives
  \<open>10.1000/http\<close>: the loader replaces every \<open>https\<close> of the value by \<open>http\<close>, not
  only the one of the resolver prefix.
\<close>

theorem doi_round_trip_counterexample:
  "item_lines (''do'', Str (''https://dx.doi.org/'' @ ''10.1000/https'')) =
     [''DO  - https://dx.doi.org/10.1000/https''] \<and>
   exclude_dois_from [''publications.ris'' \<mapsto> ''DO  - https://dx.doi.org/10.1000/https'']
     ''publications.ris'' = Inr [''10.1000/http'']"
  by (simp add: upper_def upper_char_def exclude_dois_from_def file_lines_def strip_def
      isspace_def split_def startswith_def split_acc_Nil split_acc_match split_acc_nomatch
      replace_Nil replace_match replace_nomatch)

text \<open>
  Claim C3, amended: for every DOI string \<open>d\<close> that contains neither \<open>https\<close> nor
  \<open>http://dx.doi.org/\<close> nor the separator \<open>' - '\<close>, that contains no line break (line
  feed or carriage return) and that does not end in white space, the loader run on a
  file that holds the DO line that \<open>get_ris\<close> writes for \<open>d\<close>, with or without a line
  break at its end, returns exactly \<open>d\<close>.
\<close>

theorem doi_round_trip:
  assumes "\<not> contains ''https'' d" and "\<not> contains ''http://dx.doi.org/'' d"
    and "\<not> contains '' - '' d" and "d = [] \<or> \<not> isspace (last d)"
    and "CHR 0x0A \<notin> set d" and "CHR 0x0D \<notin> set d" and "fn \<noteq> []"
  shows "exclude_dois_from
           [fn \<mapsto> str_join [CHR 0x0A] (item_lines (''do'', Str (''https://dx.doi.org/'' @ d)))]
           fn = Inr [d] \<and>
         exclude_dois_from
           [fn \<mapsto> str_join [CHR 0x0A] (item_lines (''do'', Str (''https://dx.doi.org/'' @ d))) @
                  [CHR 0x0A]]
           fn = Inr [d]"
proof -
  let ?line = "''DO  - https://dx.doi.org/'' @ d"
  have l: "\<not> isspace (last ?line)"
    using last_prefixed [OF assms(4), of "''DO  - https://dx.doi.org''"] by simp
  have "strip (?line @ []) = ?line"
    by (rule strip_keeps) (use l in \<open>simp_all add: isspace_def\<close>)
  then have s1: "strip ?line = ?line" by simp
  have s2: "strip (?line @ [CHR 0x0A]) = ?line"
    by (rule strip_keeps) (use l in \<open>simp_all add: isspace_def\<close>)
  have l': "\<not> isspace (last (''https://dx.doi.org/'' @ d))"
    using last_prefixed [OF assms(4), of "''https://dx.doi.org''"] by simp
  have "strip ((''https://dx.doi.org/'' @ d) @ []) = ''https://dx.doi.org/'' @ d"
    by (rule strip_keeps) (use l' in \<open>simp_all add: isspace_def\<close>)
  then have s3: "strip (''https://dx.doi.org/'' @ d) = ''https://dx.doi.org/'' @ d" by simp
  have sw: "startswith ?line ''DO ''" by (simp add: startswith_def)
  have body: "exclude_lines fn [x] [] = Inr [d]" if "strip x = ?line" for x
    using that sw s3
    by (simp add: split_do_line [OF assms(3), simplified] replace_url [OF assms(1,2), simplified])
  have nl: "CHR 0x0A \<notin> set ?line" "CHR 0x0D \<notin> set ?line" "?line \<noteq> []"
    using assms(5,6) by simp_all
  have f1: "file_lines ?line = [?line]" and f2: "file_lines (?line @ [CHR 0x0A]) = [?line @ [CHR 0x0A]]"
    by (rule file_lines_one [OF nl])+
  have w: "str_join [CHR 0x0A] (item_lines (''do'', Str (''https://dx.doi.org/'' @ d))) = ?line"
    by (simp only: do_line_eq str_join.simps)
  from assms(7) show ?thesis
    by (simp only: w exclude_dois_from_def fun_upd_same option.case if_False f1 f2
        body [OF s1] body [OF s2] simp_thms)
qed

theorem doi_round_trip_witness:
  "\<not> contains ''https'' ''10.1007/JHEP07(2021)027'' \<and>
   CHR 0x0A \<notin> set ''10.1007/JHEP07(2021)027'' \<and>
   exclude_dois_from
     [''publications.ris'' \<mapsto> ''DO  - https://dx.doi.org/10.1007/JHEP07(2021)027'']
     ''publications.ris'' = Inr [''10.1007/JHEP07(2021)027''] \<and>
   exclude_dois_from
     [''publications.ris'' \<mapsto>
        ''DO  - https://dx.doi.org/10.1007/JHEP07(2021)027'' @ [CHR 0x0A]]
     ''publications.ris'' = Inr [''10.1007/JHEP07(2021)027'']"
proof -
  have h1: "\<not> contains ''https'' ''10.1007/JHEP07(2021)027''"
    and h2: "\<not> contains ''http://dx.doi.org/'' ''10.1007/JHEP07(2021)027''"
    and h3: "\<not> contains '' - '' ''10.1007/JHEP07(2021)027''"
    and h4: "''10.1007/JHEP07(2021)027'' = [] \<or> \<not> isspace (last ''10.1007/JHEP07(2021)027'')"
    and h5: "CHR 0x0A \<notin> set ''10.1007/JHEP07(2021)027''"
    and h6: "CHR 0x0D \<notin> set ''10.1007/JHEP07(2021)027''"
    and h7: "''publications.ris'' \<noteq> []"
    by (simp_all add: startswith_def isspace_def)
  have w: "str_join [CHR 0x0A]
             (item_lines (''do'', Str (''https://dx.doi.org/'' @ ''10.1007/JHEP07(2021)027''))) =
           ''DO  - https://dx.doi.org/10.1007/JHEP07(2021)027''"
    by (simp add: upper_def upper_char_def)
  from doi_round_trip [OF h1 h2 h3 h4 h5 h6 h7] h1 h5 show ?thesis
    by (simp only: w) simp
qed

section \<open>The fetch loop under rate limiting\<close>

text \<open>
  As long as the server answers 429, each turn of the loop adds one request to the
  same URL and one sleep of six seconds and changes nothing else.
\<close>

lemma fetch_loop_retry:
  assumes "cur_url st \<noteq> []"
    and "\<forall>i<n. status_code (server (length (requests st) + i) (cur_url st)) = 429"
  shows "fetch_loop server name keep excl qs st =
         fetch_loop server name keep excl qs
           (st\<lparr>requests := requests st @ replicate n (cur_url st),
               sleeps := sleeps st @ replicate n 6\<rparr>)"
  using assms
proof (induction n arbitrary: st)
  case 0
  then show ?case by simp
next
  case (Suc n)
  let ?st1 = "st\<lparr>requests := requests st @ [cur_url st], sleeps := sleeps st @ [6]\<rparr>"
  from Suc.prems(2) have first: "status_code (server (length (requests st)) (cur_url st)) = 429"
    by (metis add.right_neutral zero_less_Suc)
  have step: "fetch_loop server name keep excl qs st = fetch_loop server name keep excl qs ?st1"
    using Suc.prems(1) first by (subst fetch_loop.simps) (simp add: Let_def)
  have u: "cur_url ?st1 \<noteq> []" using Suc.prems(1) by simp
  have r: "\<forall>i<n. status_code (server (length (requests ?st1) + i) (cur_url ?st1)) = 429"
  proof (intro allI impI)
    fix i assume "i < n"
    then have "Suc i < Suc n" by simp
    with Suc.prems(2) have "status_code (server (length (requests st) + Suc i) (cur_url st)) = 429"
      by blast
    then show "status_code (server (length (requests ?st1) + i) (cur_url ?st1)) = 429" by simp
  qed
  from Suc.IH [of ?st1, OF u r] step show ?case
    by (simp add: replicate_app_Cons_same)
qed

lemma fetch_loop_ok:
  assumes "cur_url st \<noteq> []"
    and "status_code (server (length (requests st)) (cur_url st)) = 200"
  shows "fetch_loop server name keep excl qs st =
         (case handle_page name keep excl qs (server (length (requests st)) (cur_url st))
                 (st\<lparr>requests := requests st @ [cur_url st]\<rparr>) of
            (st', Some e) \<Rightarrow> Some (st', Some e)
          | (st', None) \<Rightarrow> fetch_loop server name keep excl qs st')"
  using assms by (subst fetch_loop.simps) (simp add: Let_def)

lemma fetch_loop_done: "cur_url st = [] \<Longrightarrow> fetch_loop server name keep excl qs st = Some (st, None)"
  by (subst fetch_loop.simps) simp

lemma fetch_loop_blocks_aux:
  assumes "fetch_loop server name keep excl qs st = Some y"
  shows "\<not> (cur_url st \<noteq> [] \<and> (\<forall>k. status_code (server k (cur_url st)) = 429))"
proof (rule fetch_loop.raw_induct
    [where P = "\<lambda>server name keep excl qs st y.
        \<not> (cur_url st \<noteq> [] \<and> (\<forall>k. status_code (server k (cur_url st)) = 429))",
     OF _ assms])
  fix f :: "(nat \<Rightarrow> string \<Rightarrow> response) \<Rightarrow> string \<Rightarrow> bool \<Rightarrow> string list \<Rightarrow> int \<Rightarrow> fetch_state
     \<Rightarrow> (fetch_state \<times> error option) option"
  fix server name keep excl qs st y
  assume IH: "\<And>server name keep excl qs st y. f server name keep excl qs st = Some y \<Longrightarrow>
      \<not> (cur_url st \<noteq> [] \<and> (\<forall>k. status_code (server k (cur_url st)) = 429))"
  assume eq: "(if cur_url st = [] then Some (st, None)
      else let resp = server (length (requests st)) (cur_url st);
               st = st\<lparr>requests := requests st @ [cur_url st]\<rparr>
           in if status_code resp = 429
              then f server name keep excl qs (st\<lparr>sleeps := sleeps st @ [6]\<rparr>)
              else if status_code resp \<noteq> 200
                   then Some (st, Some (RuntimeError
                          (''The following URL gave status code '' @
                           str_int (status_code resp) @ '': '' @ cur_url st)))
                   else case handle_page name keep excl qs resp st of
                          (st, Some e) \<Rightarrow> Some (st, Some e)
                        | (st, None) \<Rightarrow> f server name keep excl qs st) = Some y"
  show "\<not> (cur_url st \<noteq> [] \<and> (\<forall>k. status_code (server k (cur_url st)) = 429))"
  proof
    assume a: "cur_url st \<noteq> [] \<and> (\<forall>k. status_code (server k (cur_url st)) = 429)"
    let ?st1 = "st\<lparr>requests := requests st @ [cur_url st], sleeps := sleeps st @ [6]\<rparr>"
    from a eq have "f server name keep excl qs ?st1 = Some y"
      by (simp add: Let_def)
    from IH [OF this] a show False by simp
  qed
qed

text \<open>No retry cap: against a server that always answers 429 the loop never returns.\<close>

lemma fetch_loop_blocks:
  assumes "cur_url st \<noteq> []" and "\<forall>k. status_code (server k (cur_url st)) = 429"
  shows "fetch_loop server name keep excl qs st = None"
proof (cases "fetch_loop server name keep excl qs st")
  case None
  then show ?thesis .
next
  case (Some y)
  from fetch_loop_blocks_aux [OF Some] assms show ?thesis by simp
qed

lemma ex_no_overflow: "\<not> true_div_overflows 1 25"
  by (simp add: true_div_overflows_def)

text \<open>
  Claim C9: if, from the state \<open>st\<close> on, the server answers the next \<open>n\<close> requests to
  the current URL with status 429 and the one after them with status 200, then the loop
  sends exactly \<open>n + 1\<close> requests, all to that URL, sleeps six seconds after each of
  the first \<open>n\<close>, and goes on with the response of status 200 as it does with any page:
  it handles the page and continues with the next URL.  This holds for every \<open>n\<close>: the
  number of retries has no bound.
\<close>

theorem fetch_loop_rate_limit:
  assumes "cur_url st \<noteq> []"
    and "\<forall>i<n. status_code (server (length (requests st) + i) (cur_url st)) = 429"
    and "status_code (server (length (requests st) + n) (cur_url st)) = 200"
  shows "fetch_loop server name keep_affiliation dois_to_exclude query_size st =
         (case handle_page name keep_affiliation dois_to_exclude query_size
                 (server (length (requests st) + n) (cur_url st))
                 (st\<lparr>requests := requests st @ replicate (Suc n) (cur_url st),
                     sleeps := sleeps st @ replicate n 6\<rparr>) of
            (st', Some e) \<Rightarrow> Some (st', Some e)
          | (st', None) \<Rightarrow>
              fetch_loop server name keep_affiliation dois_to_exclude query_size st')"
proof -
  define st1 where
    "st1 = st\<lparr>requests := requests st @ replicate n (cur_url st),
              sleeps := sleeps st @ replicate n 6\<rparr>"
  have u: "cur_url st1 = cur_url st" and k: "length (requests st1) = length (requests st) + n"
    by (simp_all add: st1_def)
  have e: "st1\<lparr>requests := requests st1 @ [cur_url st1]\<rparr> =
           st\<lparr>requests := requests st @ replicate (Suc n) (cur_url st),
              sleeps := sleeps st @ replicate n 6\<rparr>"
    by (simp add: st1_def replicate_append_same)
  have "fetch_loop server name keep_affiliation dois_to_exclude query_size st =
        fetch_loop server name keep_affiliation dois_to_exclude query_size st1"
    unfolding st1_def
    by (rule fetch_loop_retry [where st = st and n = n and server = server, OF assms(1,2)])
  also have "\<dots> =
         (case handle_page name keep_affiliation dois_to_exclude query_size
                 (server (length (requests st1)) (cur_url st1))
                 (st1\<lparr>requests := requests st1 @ [cur_url st1]\<rparr>) of
            (st', Some e) \<Rightarrow> Some (st', Some e)
          | (st', None) \<Rightarrow>
              fetch_loop server name keep_affiliation dois_to_exclude query_size st')"
    by (rule fetch_loop_ok) (simp_all add: u k assms)
  finally show ?thesis by (simp only: e) (simp only: u k)
qed

theorem fetch_loop_rate_limit_witness:
  "status_code (ex_server 0 ex_url) = 429 \<and> status_code (ex_server 1 ex_url) = 429 \<and>
   status_code (ex_server 2 ex_url) = 200 \<and>
   fetch_loop ex_server ''Ehataht, Karl'' False [] 25 (init_state ex_url) =
     Some (\<lparr>cur_url = [], nof_hits = 1, page_nr = 2,
            ris_data = [str_join [CHR 0x0A] ex_lines],
            requests = [ex_url, ex_url, ex_url], sleeps = [6, 6], stdout = []\<rparr>, None)"
proof -
  have u: "cur_url (init_state ex_url) \<noteq> []"
    by (simp add: init_state_def ex_url_def)
  have r: "\<forall>i<2. status_code (ex_server (length (requests (init_state ex_url)) + i)
                      (cur_url (init_state ex_url))) = 429"
    by (simp add: ex_server_def init_state_def)
  have k: "status_code (ex_server (length (requests (init_state ex_url)) + 2)
                      (cur_url (init_state ex_url))) = 200"
    by (simp add: ex_server_def init_state_def)
  have s: "status_code (ex_server 0 ex_url) = 429" "status_code (ex_server 1 ex_url) = 429"
    "status_code (ex_server 2 ex_url) = 200"
    by (simp_all add: ex_server_def)
  have h: "handle_page ''Ehataht, Karl'' False [] 25
             (ex_server (length (requests (init_state ex_url)) + 2) (cur_url (init_state ex_url)))
             ((init_state ex_url)\<lparr>requests := requests (init_state ex_url) @
                   replicate (Suc 2) (cur_url (init_state ex_url)),
                 sleeps := sleeps (init_state ex_url) @ replicate 2 6\<rparr>) =
           (\<lparr>cur_url = [], nof_hits = 1, page_nr = 2,
            ris_data = [str_join [CHR 0x0A] ex_lines],
            requests = [ex_url, ex_url, ex_url], sleeps = [6, 6], stdout = []\<rparr>, None)"
    by (simp add: handle_page_def ex_server_def init_state_def ex_get_ris numeral_2_eq_2
        numeral_3_eq_3 ex_lines_def ex_no_overflow)
  have "fetch_loop ex_server ''Ehataht, Karl'' False [] 25 (init_state ex_url) =
     Some (\<lparr>cur_url = [], nof_hits = 1, page_nr = 2,
            ris_data = [str_join [CHR 0x0A] ex_lines],
            requests = [ex_url, ex_url, ex_url], sleeps = [6, 6], stdout = []\<rparr>, None)"
    by (simp only: fetch_loop_rate_limit [where server = ex_server, OF u r k] h prod.case
        option.case) (simp add: fetch_loop_done)
  with s show ?thesis by simp
qed

end
